theory Spec2Isabelle
  imports Main "HOL-Library.AList"
begin

section \<open>The workflow canvas: data model\<close>

text \<open>
  The development embeds the graph editing logic of
  \<^verbatim>\<open>frontend/src/components/WorkflowCanvas.js\<close>: the two pieces of React state
  \<^verbatim>\<open>nodes\<close> and \<^verbatim>\<open>edges\<close>, the ref \<^verbatim>\<open>connectFromRef\<close>, the effect that
  adopts the \<^verbatim>\<open>workflow\<close> prop, and the event callbacks. Calls of the props
  \<^verbatim>\<open>onWorkflowChange\<close> and \<^verbatim>\<open>onNodeSelect\<close> are recorded in the state, oldest first.

  Plain JavaScript objects whose keys the code never inspects (a node's \<^verbatim>\<open>config\<close>,
  \<^verbatim>\<open>result\<close>, and the keys of an object that are only copied by a spread) are
  association lists in insertion order. Values of such keys are JSON values; numbers are
  integers here, as the code never computes with them.
\<close>

datatype jsvalue = JStr string | JNum int | JBool bool | JNull
  | JArr "jsvalue list" | JObj "(string \<times> jsvalue) list"

type_synonym jsobject = "(string \<times> jsvalue) list"

record edge =
  edge_id :: string
  source :: string
  target :: string

text \<open>
  A node is \<^verbatim>\<open>{ id, type, position, data, ... }\<close>; its \<^verbatim>\<open>data\<close> is
  \<^verbatim>\<open>{ label, type, config, result, defaultConfig, ..., onDelete, onUpdateConfig }\<close>.
  A field that is absent or \<^verbatim>\<open>undefined\<close> is \<open>None\<close>. The two callbacks stored in
  \<^verbatim>\<open>data\<close> are closures; each is represented by the place in the source that creates
  it together with the values of \<^verbatim>\<open>nodes\<close> and \<^verbatim>\<open>edges\<close> it closes over:
  \<^item> \<open>HydratedDelete\<close>, \<open>HydratedUpdate\<close>: created by the workflow-sync effect
    (lines 51 and 63); they read the effect's \<^verbatim>\<open>edges\<close>;
  \<^item> \<open>DropDelete\<close>, \<open>DropUpdate\<close>: created by \<^verbatim>\<open>onDrop\<close> (lines 137 and 144);
    \<open>DropDelete\<close> reads the callback's \<^verbatim>\<open>nodes\<close> and \<^verbatim>\<open>edges\<close>, \<open>DropUpdate\<close> its
    \<^verbatim>\<open>edges\<close>.
\<close>

datatype node =
  Node (node_id: string) (node_type: "string option") (position: "(int \<times> int) option")
       (data: "node_data option") (node_rest: jsobject)
and node_data =
  NodeData (label: "string option") (data_type: "string option") (config: "jsobject option")
           (result: "jsobject option") (defaultConfig: "jsobject option") (data_rest: jsobject)
           (onDelete: "delete_handle option") (onUpdateConfig: "update_handle option")
and delete_handle =
  HydratedDelete "edge list"
| DropDelete "node list" "edge list"
and update_handle =
  HydratedUpdate "edge list"
| DropUpdate "edge list"

text \<open>The argument of one \<^verbatim>\<open>onWorkflowChange\<close> call.\<close>

record workflow =
  wf_nodes :: "node list"
  wf_edges :: "edge list"

record canvas =
  nodes :: "node list"
  edges :: "edge list"
  connectFromRef :: "string option"
  notified :: "workflow list"
  selections :: "string option list"

text \<open>
  A callback created by \<^verbatim>\<open>useCallback\<close> reads the \<^verbatim>\<open>nodes\<close> and \<^verbatim>\<open>edges\<close> of the
  render that created it, while a functional updater
  (\<^verbatim>\<open>setEdges((eds) => ...)\<close>) reads the state itself. The first are the callback's
  \<open>closure\<close>; \<open>rendered s\<close> is the closure of the callbacks of the render that shows
  \<open>s\<close>.
\<close>

record closure =
  c_nodes :: "node list"
  c_edges :: "edge list"

definition rendered :: "canvas \<Rightarrow> closure" where
  "rendered s = \<lparr>c_nodes = nodes s, c_edges = edges s\<rparr>"

text \<open>The empty object \<^verbatim>\<open>{}\<close> used for \<^verbatim>\<open>n.data || {}\<close>.\<close>

definition empty_data :: node_data where
  "empty_data = NodeData None None None None None [] None None"

definition data_or_empty :: "node \<Rightarrow> node_data" where
  "data_or_empty n = (case data n of None \<Rightarrow> empty_data | Some d \<Rightarrow> d)"

text \<open>
  \<^verbatim>\<open>{ ...d, onDelete: del, onUpdateConfig: upd }\<close>: every other key of \<open>d\<close> is
  copied.
\<close>

fun with_handles :: "delete_handle option \<Rightarrow> update_handle option \<Rightarrow> node_data \<Rightarrow> node_data" where
  "with_handles del upd (NodeData l t c r dc rest _ _) = NodeData l t c r dc rest del upd"

text \<open>Optional chaining on a node: \<^verbatim>\<open>n.data?.label\<close> and so on.\<close>

definition node_label :: "node \<Rightarrow> string option" where
  "node_label n = (case data n of None \<Rightarrow> None | Some d \<Rightarrow> label d)"

definition node_kind :: "node \<Rightarrow> string option" where
  "node_kind n = (case data n of None \<Rightarrow> None | Some d \<Rightarrow> data_type d)"

definition node_config :: "node \<Rightarrow> jsobject option" where
  "node_config n = (case data n of None \<Rightarrow> None | Some d \<Rightarrow> config d)"

definition node_result :: "node \<Rightarrow> jsobject option" where
  "node_result n = (case data n of None \<Rightarrow> None | Some d \<Rightarrow> result d)"

definition node_onDelete :: "node \<Rightarrow> delete_handle option" where
  "node_onDelete n = (case data n of None \<Rightarrow> None | Some d \<Rightarrow> onDelete d)"

definition node_onUpdateConfig :: "node \<Rightarrow> update_handle option" where
  "node_onUpdateConfig n = (case data n of None \<Rightarrow> None | Some d \<Rightarrow> onUpdateConfig d)"

text \<open>A node carries a behavior handle when one of the two callbacks is a function.\<close>

definition carries_handle :: "node \<Rightarrow> bool" where
  "carries_handle n =
     (case node_onDelete n of Some _ \<Rightarrow> True
      | None \<Rightarrow> (case node_onUpdateConfig n of Some _ \<Rightarrow> True | None \<Rightarrow> False))"

section \<open>The serialization sanitizer\<close>

text \<open>
  Lines 82-92:
  \<^verbatim>\<open>ns.map((n) => ({ ...n, data: { ...(n.data || {}), onDelete: undefined, onUpdateConfig: undefined } }))\<close>
\<close>

definition sanitizeNode :: "node \<Rightarrow> node" where
  "sanitizeNode n =
     Node (node_id n) (node_type n) (position n)
          (Some (with_handles None None (data_or_empty n))) (node_rest n)"

definition sanitizeNodes :: "node list \<Rightarrow> node list" where
  "sanitizeNodes ns = map sanitizeNode ns"

section \<open>The reconciler\<close>

text \<open>
  The \<^verbatim>\<open>workflow\<close> prop. The prop itself may be \<^verbatim>\<open>undefined\<close> (\<open>None\<close> below);
  a field that is not an array is \<open>None\<close> and is read as the empty array
  (\<^verbatim>\<open>Array.isArray(workflow.nodes) ? workflow.nodes : []\<close>).
\<close>

record document =
  doc_nodes :: "node list option"
  doc_edges :: "edge list option"

text \<open>Lines 32-33.\<close>

definition incomingNodes :: "document \<Rightarrow> node list" where
  "incomingNodes w = (case doc_nodes w of None \<Rightarrow> [] | Some ns \<Rightarrow> ns)"

definition incomingEdges :: "document \<Rightarrow> edge list" where
  "incomingEdges w = (case doc_edges w of None \<Rightarrow> [] | Some es \<Rightarrow> es)"

text \<open>\<^verbatim>\<open>xs.every((x, i) => p(x, i))\<close>.\<close>

definition every_indexed :: "('a \<Rightarrow> nat \<Rightarrow> bool) \<Rightarrow> 'a list \<Rightarrow> bool" where
  "every_indexed p xs = list_all (\<lambda>(x, i). p x i) (zip xs [0..<length xs])"

text \<open>
  Lines 36-39. The index is in range of the incoming array whenever the lengths agree,
  which the left conjunct checks first.
\<close>

definition sameNodeSet :: "node list \<Rightarrow> node list \<Rightarrow> bool" where
  "sameNodeSet ns incoming =
     (length ns = length incoming \<and>
      every_indexed (\<lambda>n i. node_id n = node_id (incoming ! i)) ns)"

definition sameEdgeSet :: "edge list \<Rightarrow> edge list \<Rightarrow> bool" where
  "sameEdgeSet es incoming =
     (length es = length incoming \<and>
      every_indexed (\<lambda>e i. edge_id e = edge_id (incoming ! i)) es)"

text \<open>
  Lines 43-76: one incoming node, rehydrated. \<^verbatim>\<open>n.type || 'custom'\<close> replaces a
  missing or empty type; the two callbacks close over the effect's \<^verbatim>\<open>edges\<close>.
\<close>

definition hydrate :: "edge list \<Rightarrow> node \<Rightarrow> node" where
  "hydrate effect_edges n =
     Node (node_id n)
          (Some (case node_type n of None \<Rightarrow> ''custom''
                 | Some t \<Rightarrow> if t = [] then ''custom'' else t))
          (position n)
          (Some (with_handles (Some (HydratedDelete effect_edges))
                              (Some (HydratedUpdate effect_edges)) (data_or_empty n)))
          (node_rest n)"

text \<open>
  Lines 30-80, the effect body, run after the render that shows \<open>s\<close> with the prop
  \<open>workflow\<close>.
\<close>

definition syncWorkflow :: "document option \<Rightarrow> canvas \<Rightarrow> canvas" where
  "syncWorkflow workflow s =
     (case workflow of
        None \<Rightarrow> s
      | Some w \<Rightarrow>
          if sameNodeSet (nodes s) (incomingNodes w) \<and> sameEdgeSet (edges s) (incomingEdges w)
          then s
          else s\<lparr>nodes := map (hydrate (edges s)) (incomingNodes w),
                 edges := incomingEdges w\<rparr>)"

section \<open>The callbacks stored in node data\<close>

text \<open>
  Object spread \<^verbatim>\<open>{ ...obj, ...src }\<close>: a key of \<open>src\<close> that \<open>obj\<close> has overwrites its
  value in place, a new key is appended.
\<close>

definition spread :: "jsobject \<Rightarrow> jsobject \<Rightarrow> jsobject" where
  "spread obj src = fold (\<lambda>(k, v). AList.update k v) src obj"

fun with_config :: "jsobject option \<Rightarrow> node_data \<Rightarrow> node_data" where
  "with_config c' (NodeData l t c r dc rest del upd) = NodeData l t c' r dc rest del upd"

text \<open>
  Lines 66-68 and 147-149:
  \<^verbatim>\<open>node.id === nodeId ? { ...node, data: { ...(node.data || {}), config: { ...(node.data?.config || {}), ...newConfig } } } : node\<close>
\<close>

definition config_or_empty :: "node \<Rightarrow> jsobject" where
  "config_or_empty node = (case node_config node of None \<Rightarrow> [] | Some c \<Rightarrow> c)"

definition mergeConfig :: "string \<Rightarrow> jsobject \<Rightarrow> node \<Rightarrow> node" where
  "mergeConfig nodeId newConfig node =
     (if node_id node = nodeId
      then Node (node_id node) (node_type node) (position node)
             (Some (with_config (Some (spread (config_or_empty node) newConfig))
                                (data_or_empty node)))
             (node_rest node)
      else node)"

text \<open>
  \<^verbatim>\<open>onUpdateConfig(nodeId, newConfig)\<close>, lines 63-73 and 144-154. Both closures have
  the same body: the updater maps over the current nodes and notifies the owner with the
  closure's \<^verbatim>\<open>edges\<close>.
\<close>

fun run_onUpdateConfig :: "update_handle \<Rightarrow> string \<Rightarrow> jsobject \<Rightarrow> canvas \<Rightarrow> canvas" where
  "run_onUpdateConfig (HydratedUpdate effect_edges) nodeId newConfig s =
     (let updated = map (mergeConfig nodeId newConfig) (nodes s)
      in s\<lparr>nodes := updated,
            notified := notified s @ [\<lparr>wf_nodes = sanitizeNodes updated, wf_edges = effect_edges\<rparr>]\<rparr>)"
| "run_onUpdateConfig (DropUpdate drop_edges) nodeId newConfig s =
     (let updated = map (mergeConfig nodeId newConfig) (nodes s)
      in s\<lparr>nodes := updated,
            notified := notified s @ [\<lparr>wf_nodes = sanitizeNodes updated, wf_edges = drop_edges\<rparr>]\<rparr>)"

text \<open>
  \<^verbatim>\<open>onDelete(nodeId)\<close>. The closure of the effect (lines 51-62) filters the current
  edges and nodes and notifies with the sanitized nodes and the effect's \<^verbatim>\<open>edges\<close>. The
  closure of \<^verbatim>\<open>onDrop\<close> (lines 137-143) filters the current edges and nodes and notifies
  with the filtered \<^verbatim>\<open>nodes\<close> and \<^verbatim>\<open>edges\<close> of the render in which the node was
  dropped.
\<close>

fun run_onDelete :: "delete_handle \<Rightarrow> string \<Rightarrow> canvas \<Rightarrow> canvas" where
  "run_onDelete (HydratedDelete effect_edges) nodeId s =
     (let filtered = filter (\<lambda>e. source e \<noteq> nodeId \<and> target e \<noteq> nodeId) (edges s);
          updated = filter (\<lambda>node. node_id node \<noteq> nodeId) (nodes s)
      in s\<lparr>edges := filtered, nodes := updated,
            notified := notified s @ [\<lparr>wf_nodes = sanitizeNodes updated, wf_edges = effect_edges\<rparr>]\<rparr>)"
| "run_onDelete (DropDelete drop_nodes drop_edges) nodeId s =
     (let updatedNodes = filter (\<lambda>n. node_id n \<noteq> nodeId) drop_nodes;
          updatedEdges = filter (\<lambda>e. source e \<noteq> nodeId \<and> target e \<noteq> nodeId) drop_edges
      in s\<lparr>edges := filter (\<lambda>e. source e \<noteq> nodeId \<and> target e \<noteq> nodeId) (edges s),
            nodes := filter (\<lambda>n. node_id n \<noteq> nodeId) (nodes s),
            notified := notified s @ [\<lparr>wf_nodes = updatedNodes, wf_edges = updatedEdges\<rparr>]\<rparr>)"

text \<open>
  The node view (\<^verbatim>\<open>CustomNode.js\<close>) calls the callbacks of its own \<^verbatim>\<open>data\<close> with
  its own \<^verbatim>\<open>id\<close>: the delete button runs \<^verbatim>\<open>data.onDelete?.(id)\<close> (line 74), the
  collection input runs \<^verbatim>\<open>data.onUpdateConfig?.(id, patch)\<close> (line 124).
\<close>

definition clickDelete :: "node \<Rightarrow> canvas \<Rightarrow> canvas" where
  "clickDelete n s =
     (case node_onDelete n of None \<Rightarrow> s | Some h \<Rightarrow> run_onDelete h (node_id n) s)"

definition editConfig :: "node \<Rightarrow> jsobject \<Rightarrow> canvas \<Rightarrow> canvas" where
  "editConfig n patch s =
     (case node_onUpdateConfig n of None \<Rightarrow> s
      | Some h \<Rightarrow> run_onUpdateConfig h (node_id n) patch s)"

section \<open>The event callbacks\<close>

text \<open>
  Template literals print \<^verbatim>\<open>Date.now()\<close>, a non-negative integer, in decimal.
\<close>

function decimal :: "nat \<Rightarrow> string" where
  "decimal n =
     (if n < 10 then [char_of (48 + n)]
      else decimal (n div 10) @ [char_of (48 + n mod 10)])"
  by pat_completeness auto
termination
  by (relation "measure (\<lambda>n. n)") auto

declare decimal.simps [simp del]

text \<open>
  \<^verbatim>\<open>addEdge\<close> is imported from the \<^verbatim>\<open>reactflow\<close> package (line 3), whose code is
  not part of the repository. The definition follows the package: called with an edge
  that has an \<^verbatim>\<open>id\<close>, it returns the edges as they are when the source or the target
  of the new edge is falsy, and when some edge already connects the same source to the
  same target; otherwise it appends the new edge. (The package also compares the handle
  ids of the two ends; the edges here have none, as the node view gives its handles no
  id.) The specification of the Graph Store words the contract as
  "\<^verbatim>\<open>addEdge(edge)\<close>: appends"; the two agree on every edge with non-empty ends that
  connects a pair not yet connected.
\<close>

definition connectionExists :: "edge \<Rightarrow> edge list \<Rightarrow> bool" where
  "connectionExists e eds = list_ex (\<lambda>el. source el = source e \<and> target el = target e) eds"

definition addEdge :: "edge \<Rightarrow> edge list \<Rightarrow> edge list" where
  "addEdge e eds =
     (if source e = [] \<or> target e = [] then eds
      else if connectionExists e eds then eds
      else eds @ [e])"

subsection \<open>Drop-create\<close>

text \<open>
  What \<^verbatim>\<open>onDrop\<close> reads from its event. \<^verbatim>\<open>getData\<close> returns the empty string for
  a format the drag does not carry. \<^verbatim>\<open>JSON.parse\<close> is a built-in; the event holds its
  outcome on \<^verbatim>\<open>getData('componentData')\<close>: the \<^verbatim>\<open>SyntaxError\<close> it throws (on the
  empty string, for one), or the value. A value is \<^verbatim>\<open>null\<close>, an object, or anything
  else (a number, a boolean, a string, an array).

  The palette writes the object \<^verbatim>\<open>{ ...metadata, defaultConfig }\<close> with the metadata
  keys \<^verbatim>\<open>label\<close>, \<^verbatim>\<open>description\<close>, \<^verbatim>\<open>icon\<close>, \<^verbatim>\<open>category\<close>
  (\<^verbatim>\<open>handleDragStart\<close> in \<^verbatim>\<open>ComponentLibrary.js\<close>). Of an object the record
  \<open>payload\<close> holds the keys that \<^verbatim>\<open>onDrop\<close> reads or that the spread on line 136 lets
  override an earlier key of the node data: \<^verbatim>\<open>label\<close> (a string), \<^verbatim>\<open>type\<close> (a
  string), \<^verbatim>\<open>config\<close> and \<^verbatim>\<open>defaultConfig\<close> (objects); \<open>p_rest\<close> holds the
  remaining keys but \<^verbatim>\<open>onDelete\<close>, \<^verbatim>\<open>onUpdateConfig\<close> and \<^verbatim>\<open>result\<close>, which
  lines 137-155 overwrite. Of any other value \<open>JsonOther\<close> holds the own enumerable
  properties, which are what the spread copies: none for a number or a boolean, the
  indexed characters of a string, the indexed elements of an array.

  \<open>flow_position\<close> is the result of \<^verbatim>\<open>screenToFlowPosition\<close> on the pointer,
  \<open>drop_now\<close> that of \<^verbatim>\<open>Date.now()\<close>.
\<close>

datatype error = SyntaxError | TypeError

record payload =
  p_label :: "string option"
  p_type :: "string option"
  p_config :: "jsobject option"
  p_defaultConfig :: "jsobject option"
  p_rest :: jsobject

datatype parsed_json = JsonNull | JsonObject payload | JsonOther jsobject

record drop_event =
  reactflow_type :: string
  componentType :: string
  parsed_componentData :: "error + parsed_json"
  flow_position :: "int \<times> int"
  drop_now :: nat

text \<open>
  Lines 127-157. The spread \<^verbatim>\<open>...componentData\<close> of line 136 comes after
  \<^verbatim>\<open>label\<close>, \<^verbatim>\<open>type\<close> and \<^verbatim>\<open>config\<close>: a \<^verbatim>\<open>type\<close> or \<^verbatim>\<open>config\<close> key of
  the payload replaces \<^verbatim>\<open>componentType\<close> and
  \<^verbatim>\<open>componentData.defaultConfig || {}\<close>.
\<close>

definition newNode :: "closure \<Rightarrow> drop_event \<Rightarrow> payload \<Rightarrow> node" where
  "newNode cl event componentData =
     Node (componentType event @ ''_'' @ decimal (drop_now event))
          (Some ''custom'')
          (Some (flow_position event))
          (Some (NodeData
             (p_label componentData)
             (case p_type componentData of None \<Rightarrow> Some (componentType event)
              | Some t \<Rightarrow> Some t)
             (case p_config componentData of
                None \<Rightarrow> Some (case p_defaultConfig componentData of None \<Rightarrow> [] | Some c \<Rightarrow> c)
              | Some c \<Rightarrow> Some c)
             (if componentType event = ''output''
              then Some [(''formatted_response'', JStr [])] else None)
             (p_defaultConfig componentData)
             (p_rest componentData)
             (Some (DropDelete (c_nodes cl) (c_edges cl)))
             (Some (DropUpdate (c_edges cl)))))
          []"

text \<open>Lines 159-160: the updater appends the node; the owner is notified.\<close>

definition addDropped :: "closure \<Rightarrow> node \<Rightarrow> canvas \<Rightarrow> canvas" where
  "addDropped cl n s =
     s\<lparr>nodes := nodes s @ [n],
       notified := notified s @
         [\<lparr>wf_nodes = sanitizeNodes (c_nodes cl @ [n]), wf_edges = c_edges cl\<rparr>]\<rparr>"

text \<open>
  Lines 110-163. \<^verbatim>\<open>JSON.parse\<close> runs on line 116, before the guard on the drag type
  of lines 118-120; reading \<^verbatim>\<open>componentData.label\<close> on line 133 throws a
  \<^verbatim>\<open>TypeError\<close> when the parsed value is \<^verbatim>\<open>null\<close>. Nothing catches either, so
  the exception leaves the callback: the result is \<open>Inl\<close>. A parsed value that is
  neither \<^verbatim>\<open>null\<close> nor an object has no \<^verbatim>\<open>label\<close> and no \<^verbatim>\<open>defaultConfig\<close>; the
  node is created from its own enumerable properties alone.
\<close>

definition onDrop :: "closure \<Rightarrow> drop_event \<Rightarrow> canvas \<Rightarrow> error + canvas" where
  "onDrop cl event s =
     (case parsed_componentData event of
        Inl e \<Rightarrow> Inl e
      | Inr v \<Rightarrow>
          if reactflow_type event = [] then Inr s
          else (case v of
                  JsonNull \<Rightarrow> Inl TypeError
                | JsonObject componentData \<Rightarrow> Inr (addDropped cl (newNode cl event componentData) s)
                | JsonOther props \<Rightarrow>
                    Inr (addDropped cl
                           (newNode cl event
                              \<lparr>p_label = None, p_type = None, p_config = None,
                               p_defaultConfig = None, p_rest = props\<rparr>)
                           s)))"

subsection \<open>Connect mode\<close>

text \<open>\<^verbatim>\<open>!connectFromRef.current\<close>: \<^verbatim>\<open>null\<close> and the empty string are falsy.\<close>

definition falsy :: "string option \<Rightarrow> bool" where
  "falsy r = (case r of None \<Rightarrow> True | Some v \<Rightarrow> v = [])"

text \<open>
  Lines 167-182. \<open>connectMode\<close> is the value the callback closes over, \<open>now\<close> the
  result of \<^verbatim>\<open>Date.now()\<close>.
\<close>

definition onNodeClick :: "closure \<Rightarrow> bool \<Rightarrow> nat \<Rightarrow> node \<Rightarrow> canvas \<Rightarrow> canvas" where
  "onNodeClick cl connectMode now node s =
     (if connectMode then
        (case connectFromRef s of
           None \<Rightarrow> s\<lparr>connectFromRef := Some (node_id node)\<rparr>
         | Some current \<Rightarrow>
             if current = [] then s\<lparr>connectFromRef := Some (node_id node)\<rparr>
             else if current \<noteq> node_id node then
               (let newEdge = \<lparr>edge_id = current @ ''-'' @ node_id node @ ''-'' @ decimal now,
                               source = current, target = node_id node\<rparr>
                in s\<lparr>edges := addEdge newEdge (edges s),
                      notified := notified s @
                        [\<lparr>wf_nodes = c_nodes cl, wf_edges = c_edges cl @ [newEdge]\<rparr>],
                      connectFromRef := None\<rparr>)
             else s)
      else s\<lparr>selections := selections s @ [Some (node_id node)]\<rparr>)"

text \<open>
  Lines 184-190. The dependency list of this callback is \<^verbatim>\<open>[onNodeSelect]\<close>, so
  \<open>connectMode\<close> is the value of the prop in the render that last re-created it.
\<close>

definition onPaneClick :: "bool \<Rightarrow> canvas \<Rightarrow> canvas" where
  "onPaneClick connectMode s =
     (if connectMode then s\<lparr>connectFromRef := None\<rparr>
      else s\<lparr>selections := selections s @ [None]\<rparr>)"

subsection \<open>Deleting nodes and edges\<close>

text \<open>
  Lines 192-199: bulk deletion of the selected nodes. The callback filters the edges;
  the nodes themselves are removed by React Flow through \<^verbatim>\<open>onNodesChange\<close>.
\<close>

definition onNodesDelete :: "closure \<Rightarrow> node list \<Rightarrow> canvas \<Rightarrow> canvas" where
  "onNodesDelete cl deleted s =
     (let deletedNodeIds = map node_id deleted;
          updatedNodes = filter (\<lambda>node. node_id node \<notin> set deletedNodeIds) (c_nodes cl)
      in s\<lparr>edges := filter (\<lambda>edge. source edge \<notin> set deletedNodeIds \<and>
                                    target edge \<notin> set deletedNodeIds) (edges s),
            notified := notified s @
              [\<lparr>wf_nodes = sanitizeNodes updatedNodes, wf_edges = c_edges cl\<rparr>]\<rparr>)"

text \<open>Lines 201-203.\<close>

definition onEdgesDelete :: "closure \<Rightarrow> edge list \<Rightarrow> canvas \<Rightarrow> canvas" where
  "onEdgesDelete cl deleted s =
     s\<lparr>notified := notified s @
         [\<lparr>wf_nodes = sanitizeNodes (c_nodes cl),
           wf_edges = filter (\<lambda>edge. \<not> list_ex (\<lambda>d. edge_id d = edge_id edge) deleted)
                        (c_edges cl)\<rparr>]\<rparr>"

text \<open>Lines 205-210.\<close>

definition onEdgeClick :: "closure \<Rightarrow> edge \<Rightarrow> canvas \<Rightarrow> canvas" where
  "onEdgeClick cl edge s =
     (let updated = filter (\<lambda>e. edge_id e \<noteq> edge_id edge) (c_edges cl)
      in s\<lparr>edges := updated,
            notified := notified s @
              [\<lparr>wf_nodes = sanitizeNodes (c_nodes cl), wf_edges = updated\<rparr>]\<rparr>)"

section \<open>The owner\<close>

text \<open>
  \<^verbatim>\<open>ComponentLibrary.js\<close>, lines 134-136 and 186-190: the owner stores the notified
  workflow (\<^verbatim>\<open>setWorkflow(newWorkflow)\<close>) and hands it back as the \<^verbatim>\<open>workflow\<close>
  prop of the next render.
\<close>

definition handleWorkflowChange :: "workflow \<Rightarrow> document" where
  "handleWorkflowChange newWorkflow =
     \<lparr>doc_nodes = Some (wf_nodes newWorkflow), doc_edges = Some (wf_edges newWorkflow)\<rparr>"

section \<open>Concrete canvases and events\<close>

text \<open>
  Small inputs on which the theorems below are evaluated: two nodes \<open>a\<close> and \<open>b\<close>,
  the first with rehydrated callbacks, the second without \<^verbatim>\<open>data\<close>; an edge from
  \<open>a\<close> to \<open>b\<close> and a loop on \<open>b\<close>.
\<close>

definition nodeA :: node where
  "nodeA = Node ''a'' (Some ''custom'') (Some (1, 2))
     (Some (NodeData (Some ''A'') (Some ''user_query'') (Some [(''k'', JNum 1)]) None None []
        (Some (HydratedDelete [])) (Some (HydratedUpdate [])))) []"

definition nodeB :: node where
  "nodeB = Node ''b'' None None None []"

text \<open>A node whose \<^verbatim>\<open>id\<close> is the empty string, and one whose \<^verbatim>\<open>type\<close> is.\<close>

definition nodeE :: node where
  "nodeE = Node [] (Some ''custom'') None None []"

definition nodeT :: node where
  "nodeT = Node ''t'' (Some []) (Some (0, 0))
     (Some (NodeData (Some ''T'') (Some ''output'') (Some []) None None [] None None)) []"

definition edgeAB :: edge where
  "edgeAB = \<lparr>edge_id = ''e1'', source = ''a'', target = ''b''\<rparr>"

definition edgeBB :: edge where
  "edgeBB = \<lparr>edge_id = ''e2'', source = ''b'', target = ''b''\<rparr>"

definition emptyCanvas :: canvas where
  "emptyCanvas = \<lparr>nodes = [], edges = [], connectFromRef = None, notified = [], selections = []\<rparr>"

definition canvasAB :: canvas where
  "canvasAB = \<lparr>nodes = [nodeA, nodeB], edges = [edgeAB, edgeBB], connectFromRef = None,
     notified = [], selections = []\<rparr>"

text \<open>The document the owner holds for \<open>canvasAB\<close>, and two documents that differ from it.\<close>

definition docAB :: document where
  "docAB = \<lparr>doc_nodes = Some (sanitizeNodes [nodeA, nodeB]), doc_edges = Some [edgeAB, edgeBB]\<rparr>"

definition docT :: document where
  "docT = \<lparr>doc_nodes = Some [nodeT, nodeB], doc_edges = Some [edgeAB]\<rparr>"

definition docABT :: document where
  "docABT = \<lparr>doc_nodes = Some (sanitizeNodes [nodeA, nodeB, nodeT]),
     doc_edges = Some [edgeAB, edgeBB]\<rparr>"

text \<open>\<open>canvasAB\<close> after the owner supplied \<open>docABT\<close>: three rehydrated nodes.\<close>

definition canvasABT :: canvas where
  "canvasABT = syncWorkflow (Some docABT) canvasAB"

text \<open>
  Drop events: an \<^verbatim>\<open>output\<close> component dragged from the palette; a drag that carries
  none of the three formats, so that \<^verbatim>\<open>getData\<close> returns the empty string three times
  and \<^verbatim>\<open>JSON.parse('')\<close> throws; a drag whose \<^verbatim>\<open>componentData\<close> is the text
  \<^verbatim>\<open>null\<close>.
\<close>

definition payloadOut :: payload where
  "payloadOut = \<lparr>p_label = Some ''Output'', p_type = None, p_config = None,
     p_defaultConfig = Some [(''max_history'', JNum 50)],
     p_rest = [(''icon'', JStr ''Monitor'')]\<rparr>"

definition evOut :: drop_event where
  "evOut = \<lparr>reactflow_type = ''custom'', componentType = ''output'',
     parsed_componentData = Inr (JsonObject payloadOut), flow_position = (100, 100),
     drop_now = 5\<rparr>"

definition evForeign :: drop_event where
  "evForeign = \<lparr>reactflow_type = [], componentType = [],
     parsed_componentData = Inl SyntaxError, flow_position = (0, 0), drop_now = 5\<rparr>"

definition evNull :: drop_event where
  "evNull = \<lparr>reactflow_type = ''custom'', componentType = ''output'',
     parsed_componentData = Inr JsonNull, flow_position = (0, 0), drop_now = 5\<rparr>"

text \<open>
  The canvas after \<open>evOut\<close> was dropped on the empty canvas, after the same event fired
  once more, and after \<open>evOut\<close> was dropped on \<open>canvasAB\<close>.
\<close>

definition droppedOnce :: canvas where
  "droppedOnce = (case onDrop (rendered emptyCanvas) evOut emptyCanvas of
                    Inr s \<Rightarrow> s | Inl _ \<Rightarrow> emptyCanvas)"

definition droppedTwice :: canvas where
  "droppedTwice = (case onDrop (rendered droppedOnce) evOut droppedOnce of
                    Inr s \<Rightarrow> s | Inl _ \<Rightarrow> droppedOnce)"

definition droppedOnAB :: canvas where
  "droppedOnAB = (case onDrop (rendered canvasAB) evOut canvasAB of
                    Inr s \<Rightarrow> s | Inl _ \<Rightarrow> canvasAB)"

section \<open>Auxiliary facts\<close>

lemma every_indexed_nth: "every_indexed p xs = (\<forall>i<length xs. p (xs ! i) i)"
  by (simp add: every_indexed_def list_all_length)

lemma sameNodeSet_iff: "sameNodeSet ns inc \<longleftrightarrow> map node_id ns = map node_id inc"
  by (auto simp: sameNodeSet_def every_indexed_nth list_eq_iff_nth_eq)

lemma sameEdgeSet_iff: "sameEdgeSet es inc \<longleftrightarrow> map edge_id es = map edge_id inc"
  by (auto simp: sameEdgeSet_def every_indexed_nth list_eq_iff_nth_eq)

lemma with_handles_sel [simp]:
  "label (with_handles a b d) = label d"
  "data_type (with_handles a b d) = data_type d"
  "config (with_handles a b d) = config d"
  "result (with_handles a b d) = result d"
  "defaultConfig (with_handles a b d) = defaultConfig d"
  "data_rest (with_handles a b d) = data_rest d"
  "onDelete (with_handles a b d) = a"
  "onUpdateConfig (with_handles a b d) = b"
  by (cases d; simp)+

lemma with_handles_twice [simp]: "with_handles a b (with_handles a' b' d) = with_handles a b d"
  by (cases d) simp

lemma with_config_sel [simp]:
  "config (with_config c d) = c"
  "label (with_config c d) = label d"
  "data_type (with_config c d) = data_type d"
  "result (with_config c d) = result d"
  "onDelete (with_config c d) = onDelete d"
  "onUpdateConfig (with_config c d) = onUpdateConfig d"
  by (cases d; simp)+

lemma sanitizeNode_idem: "sanitizeNode (sanitizeNode n) = sanitizeNode n"
  by (simp add: sanitizeNode_def data_or_empty_def)

lemma sanitizeNode_sel:
  "node_id (sanitizeNode n) = node_id n"
  "node_type (sanitizeNode n) = node_type n"
  "position (sanitizeNode n) = position n"
  "node_rest (sanitizeNode n) = node_rest n"
  "node_label (sanitizeNode n) = node_label n"
  "node_kind (sanitizeNode n) = node_kind n"
  "node_config (sanitizeNode n) = node_config n"
  "node_result (sanitizeNode n) = node_result n"
  "node_onDelete (sanitizeNode n) = None"
  "node_onUpdateConfig (sanitizeNode n) = None"
  by (simp_all add: sanitizeNode_def data_or_empty_def empty_data_def node_label_def
      node_kind_def node_config_def node_result_def node_onDelete_def node_onUpdateConfig_def
      split: option.splits)

lemma sanitizeNode_clean: "\<not> carries_handle (sanitizeNode n)"
  by (simp add: carries_handle_def sanitizeNode_sel)

lemma hydrate_sel:
  "node_id (hydrate es n) = node_id n"
  "position (hydrate es n) = position n"
  "node_rest (hydrate es n) = node_rest n"
  "node_label (hydrate es n) = node_label n"
  "node_kind (hydrate es n) = node_kind n"
  "node_config (hydrate es n) = node_config n"
  "node_result (hydrate es n) = node_result n"
  "defaultConfig (data_or_empty (hydrate es n)) = defaultConfig (data_or_empty n)"
  "data_rest (data_or_empty (hydrate es n)) = data_rest (data_or_empty n)"
  "node_onDelete (hydrate es n) = Some (HydratedDelete es)"
  "node_onUpdateConfig (hydrate es n) = Some (HydratedUpdate es)"
  by (simp_all add: hydrate_def data_or_empty_def empty_data_def node_label_def
      node_kind_def node_config_def node_result_def node_onDelete_def node_onUpdateConfig_def
      split: option.splits)

lemma run_onDelete_edges:
  "edges (run_onDelete h n s) = filter (\<lambda>e. source e \<noteq> n \<and> target e \<noteq> n) (edges s)"
  by (cases h) (simp_all add: Let_def)

lemma run_onDelete_nodes:
  "nodes (run_onDelete h n s) = filter (\<lambda>node. node_id node \<noteq> n) (nodes s)"
  by (cases h) (simp_all add: Let_def)

text \<open>
  The spread of \<open>src\<close> over \<open>obj\<close>, read as a map: the keys of \<open>src\<close> overwrite, a later
  entry of \<open>src\<close> winning over an earlier one with the same key.
\<close>

lemma map_of_spread: "map_of (spread obj src) = map_of obj ++ map_of (rev src)"
proof (induction src arbitrary: obj)
  case Nil
  then show ?case by (simp add: spread_def)
next
  case (Cons p src)
  obtain k v where p: "p = (k, v)" by (cases p)
  have "spread obj (p # src) = spread (AList.update k v obj) src"
    by (simp add: spread_def p)
  then have "map_of (spread obj (p # src)) = map_of (AList.update k v obj) ++ map_of (rev src)"
    by (simp only: Cons.IH)
  also have "\<dots> = map_of obj ++ map_of (rev (p # src))"
    by (auto simp: p fun_eq_iff map_add_def update_conv split: option.splits)
  finally show ?case .
qed

lemma config_mergeConfig:
  "node_id node = nodeId \<Longrightarrow>
   config_or_empty (mergeConfig nodeId newConfig node) = spread (config_or_empty node) newConfig"
  by (simp add: mergeConfig_def config_or_empty_def node_config_def)

lemma mergeConfig_id [simp]: "node_id (mergeConfig nodeId newConfig node) = node_id node"
  by (simp add: mergeConfig_def)

lemma mergeConfig_other: "node_id node \<noteq> nodeId \<Longrightarrow> mergeConfig nodeId newConfig node = node"
  by (simp add: mergeConfig_def)

lemma run_onUpdateConfig_sel:
  "nodes (run_onUpdateConfig h nodeId newConfig s) = map (mergeConfig nodeId newConfig) (nodes s)"
  "edges (run_onUpdateConfig h nodeId newConfig s) = edges s"
  "connectFromRef (run_onUpdateConfig h nodeId newConfig s) = connectFromRef s"
  by (cases h; simp add: Let_def)+

lemma decimal_5: "decimal 5 = ''5''"
  by code_simp

lemma droppedOnce_nodes: "nodes droppedOnce = [newNode (rendered emptyCanvas) evOut payloadOut]"
  by (simp add: droppedOnce_def onDrop_def addDropped_def evOut_def emptyCanvas_def Let_def)

section \<open>The sanitizer and the reconciler\<close>

text \<open>
  Claim C5. \<^verbatim>\<open>sanitizeNodes\<close> is idempotent; no node of its result carries a behavior
  handle; the result has the length and the order of its argument, and every node keeps
  its id, type, position, label, kind, config and result (and every key the code does
  not name).
\<close>

theorem sanitizeNodes_idempotent_clean:
  "sanitizeNodes (sanitizeNodes ns) = sanitizeNodes ns \<and>
   list_all (\<lambda>n. \<not> carries_handle n) (sanitizeNodes ns) \<and>
   length (sanitizeNodes ns) = length ns \<and>
   map node_id (sanitizeNodes ns) = map node_id ns \<and>
   map node_type (sanitizeNodes ns) = map node_type ns \<and>
   map position (sanitizeNodes ns) = map position ns \<and>
   map node_label (sanitizeNodes ns) = map node_label ns \<and>
   map node_kind (sanitizeNodes ns) = map node_kind ns \<and>
   map node_config (sanitizeNodes ns) = map node_config ns \<and>
   map node_result (sanitizeNodes ns) = map node_result ns \<and>
   map node_rest (sanitizeNodes ns) = map node_rest ns"
  by (simp add: sanitizeNodes_def sanitizeNode_idem sanitizeNode_clean sanitizeNode_sel
      list_all_iff comp_def)

theorem sanitizeNodes_idempotent_clean_witness:
  "carries_handle nodeA \<and>
   sanitizeNodes (sanitizeNodes [nodeA, nodeB]) = sanitizeNodes [nodeA, nodeB] \<and>
   list_all (\<lambda>n. \<not> carries_handle n) (sanitizeNodes [nodeA, nodeB]) \<and>
   map node_config (sanitizeNodes [nodeA, nodeB]) = [Some [(''k'', JNum 1)], None]"
  using sanitizeNodes_idempotent_clean [of "[nodeA, nodeB]"]
  by (simp add: nodeA_def nodeB_def carries_handle_def node_onDelete_def node_config_def)

text \<open>
  Claim C4. The reconciler returns the state as it found it, with no call of
  \<^verbatim>\<open>onWorkflowChange\<close> added, when the \<^verbatim>\<open>workflow\<close> prop is absent, and when the
  node ids and the edge ids of the incoming document are, position by position, those of
  the state (the two lists of ids are equal).
\<close>

theorem syncWorkflow_noop:
  "syncWorkflow None s = s \<and>
   (map node_id (nodes s) = map node_id (incomingNodes w) \<and>
    map edge_id (edges s) = map edge_id (incomingEdges w)
    \<longrightarrow> syncWorkflow (Some w) s = s)"
  by (simp add: syncWorkflow_def sameNodeSet_iff sameEdgeSet_iff)

theorem syncWorkflow_noop_witness:
  "nodes canvasAB = [nodeA, nodeB] \<and> syncWorkflow (Some docAB) canvasAB = canvasAB"
  using syncWorkflow_noop [of canvasAB docAB]
  by (simp add: canvasAB_def docAB_def incomingNodes_def incomingEdges_def sanitizeNodes_def
      sanitizeNode_sel nodeA_def nodeB_def edgeAB_def edgeBB_def)

text \<open>
  Claim C6, as amended. When the id sequences of the incoming document differ from those
  of the state, the reconciler replaces the nodes by the rehydrated incoming nodes and the
  edges by the incoming edges, and notifies nobody. A rehydrated node keeps the id,
  position, label, kind, config, result and every unnamed key of the incoming node; its
  two callbacks are new closures over the edges of the state before the replacement, and
  the node view runs them with the node's own id. Its \<^verbatim>\<open>type\<close> is the incoming one
  unless that is missing or empty, in which case it is \<^verbatim>\<open>'custom'\<close>.
\<close>

theorem syncWorkflow_replaces:
  assumes "map node_id (nodes s) \<noteq> map node_id (incomingNodes w) \<or>
           map edge_id (edges s) \<noteq> map edge_id (incomingEdges w)"
  shows
   "nodes (syncWorkflow (Some w) s) = map (hydrate (edges s)) (incomingNodes w) \<and>
    edges (syncWorkflow (Some w) s) = incomingEdges w \<and>
    notified (syncWorkflow (Some w) s) = notified s \<and>
    node_id (hydrate es n) = node_id n \<and>
    position (hydrate es n) = position n \<and>
    node_rest (hydrate es n) = node_rest n \<and>
    node_label (hydrate es n) = node_label n \<and>
    node_kind (hydrate es n) = node_kind n \<and>
    node_config (hydrate es n) = node_config n \<and>
    node_result (hydrate es n) = node_result n \<and>
    defaultConfig (data_or_empty (hydrate es n)) = defaultConfig (data_or_empty n) \<and>
    data_rest (data_or_empty (hydrate es n)) = data_rest (data_or_empty n) \<and>
    (node_type n = None \<or> node_type n = Some [] \<longrightarrow>
       node_type (hydrate es n) = Some ''custom'') \<and>
    (node_type n \<noteq> None \<and> node_type n \<noteq> Some [] \<longrightarrow>
       node_type (hydrate es n) = node_type n) \<and>
    node_onDelete (hydrate es n) = Some (HydratedDelete es) \<and>
    node_onUpdateConfig (hydrate es n) = Some (HydratedUpdate es) \<and>
    clickDelete (hydrate es n) s' = run_onDelete (HydratedDelete es) (node_id n) s' \<and>
    editConfig (hydrate es n) patch s' = run_onUpdateConfig (HydratedUpdate es) (node_id n) patch s'"
proof -
  have "\<not> (sameNodeSet (nodes s) (incomingNodes w) \<and> sameEdgeSet (edges s) (incomingEdges w))"
    using assms by (auto simp: sameNodeSet_iff sameEdgeSet_iff)
  then have "syncWorkflow (Some w) s =
      s\<lparr>nodes := map (hydrate (edges s)) (incomingNodes w), edges := incomingEdges w\<rparr>"
    by (auto simp: syncWorkflow_def)
  moreover have "node_type n = None \<or> node_type n = Some [] \<longrightarrow>
      node_type (hydrate es n) = Some ''custom''"
    by (auto simp: hydrate_def)
  moreover have "node_type n \<noteq> None \<and> node_type n \<noteq> Some [] \<longrightarrow>
      node_type (hydrate es n) = node_type n"
    by (auto simp: hydrate_def)
  ultimately show ?thesis
    by (simp add: hydrate_sel clickDelete_def editConfig_def)
qed

theorem syncWorkflow_replaces_witness:
  "map node_id (nodes emptyCanvas) \<noteq> map node_id (incomingNodes docT) \<and>
   map node_id (nodes (syncWorkflow (Some docT) emptyCanvas)) = [''t'', ''b''] \<and>
   edges (syncWorkflow (Some docT) emptyCanvas) = [edgeAB] \<and>
   node_label (hydrate [] nodeT) = Some ''T'' \<and>
   node_onDelete (hydrate [] nodeT) = Some (HydratedDelete []) \<and>
   node_type (hydrate [] nodeA) = Some ''custom''"
  using syncWorkflow_replaces [of emptyCanvas docT "[]" nodeT]
    syncWorkflow_replaces [of emptyCanvas docT "[]" nodeA]
  by (simp add: emptyCanvas_def docT_def incomingNodes_def incomingEdges_def nodeT_def
      nodeA_def nodeB_def node_label_def hydrate_sel)

text \<open>
  The claim as stated, "all other incoming fields preserved verbatim", fails on a
  document whose first node has the empty string as \<^verbatim>\<open>type\<close> and whose second node has
  no \<^verbatim>\<open>type\<close>: both are adopted with the type \<^verbatim>\<open>'custom'\<close>.
\<close>

theorem syncWorkflow_type_counterexample:
  "map node_id (nodes emptyCanvas) \<noteq> map node_id (incomingNodes docT) \<and>
   incomingNodes docT = [nodeT, nodeB] \<and>
   map node_type [nodeT, nodeB] = [Some [], None] \<and>
   map node_type (nodes (syncWorkflow (Some docT) emptyCanvas)) = [Some ''custom'', Some ''custom'']"
  by (simp add: emptyCanvas_def docT_def incomingNodes_def incomingEdges_def nodeT_def
      nodeB_def syncWorkflow_def sameNodeSet_def hydrate_def)

section \<open>Deleting nodes\<close>

text \<open>
  Claim C1. Deleting node \<open>n\<close> through a delete callback of either origin, run from the
  node view or directly, leaves in the state exactly the edges that neither start nor end
  at \<open>n\<close>, and exactly the nodes with another id; a bulk deletion leaves no edge that
  starts or ends at a deleted node. Each is one transition of the state, whatever the
  closure of the callback holds.
\<close>

theorem delete_cascades:
  "edges (run_onDelete h n s) = filter (\<lambda>e. source e \<noteq> n \<and> target e \<noteq> n) (edges s) \<and>
   nodes (run_onDelete h n s) = filter (\<lambda>node. node_id node \<noteq> n) (nodes s) \<and>
   (\<forall>e \<in> set (edges (run_onDelete h n s)). source e \<noteq> n \<and> target e \<noteq> n) \<and>
   (node_onDelete v = Some h \<longrightarrow>
      (\<forall>e \<in> set (edges (clickDelete v s)). source e \<noteq> node_id v \<and> target e \<noteq> node_id v)) \<and>
   (\<forall>e \<in> set (edges (onNodesDelete cl deleted s)).
      source e \<notin> node_id ` set deleted \<and> target e \<notin> node_id ` set deleted)"
  by (auto simp: run_onDelete_edges run_onDelete_nodes clickDelete_def onNodesDelete_def Let_def)

theorem delete_cascades_witness:
  "node_onDelete nodeA = Some (HydratedDelete []) \<and>
   edges canvasAB = [edgeAB, edgeBB] \<and>
   edges (clickDelete nodeA canvasAB) = [edgeBB] \<and>
   edges (run_onDelete (DropDelete [] []) ''a'' canvasAB) = [edgeBB] \<and>
   edges (onNodesDelete (rendered canvasAB) [nodeA] canvasAB) = [edgeBB] \<and>
   edges (onNodesDelete (rendered canvasAB) [nodeA, nodeB] canvasAB) = []"
  using delete_cascades [of "HydratedDelete []" "''a''" canvasAB nodeA "rendered canvasAB" "[nodeA]"]
  by (simp add: canvasAB_def nodeA_def nodeB_def edgeAB_def edgeBB_def clickDelete_def
      node_onDelete_def onNodesDelete_def rendered_def)

text \<open>
  Claim C2 does not hold of the code. Bulk deletion of node \<open>a\<close> from \<open>canvasAB\<close>
  removes the edge from \<open>a\<close> to \<open>b\<close> from the state, and notifies the owner with both
  edges: the callback passes the \<^verbatim>\<open>edges\<close> of its closure (line 198). The delete
  callback of a rehydrated node does the same with the \<^verbatim>\<open>edges\<close> of the effect that
  created it (line 59): in \<open>canvasABT\<close> deleting \<open>a\<close> leaves the nodes \<open>b\<close>, \<open>t\<close> and
  the loop on \<open>b\<close>, and notifies both edges. When the owner hands that notification back,
  the reconciler finds the edge ids changed and adopts the edge from \<open>a\<close> again.
\<close>

theorem delete_notifies_stale_edges:
  "edges (onNodesDelete (rendered canvasAB) [nodeA] canvasAB) = [edgeBB] \<and>
   map wf_edges (notified (onNodesDelete (rendered canvasAB) [nodeA] canvasAB)) =
     [[edgeAB, edgeBB]] \<and>
   source edgeAB = node_id nodeA \<and>
   map node_id (nodes canvasABT) = [''a'', ''b'', ''t''] \<and>
   edges (clickDelete (hd (nodes canvasABT)) canvasABT) = [edgeBB] \<and>
   map node_id (nodes (clickDelete (hd (nodes canvasABT)) canvasABT)) = [''b'', ''t''] \<and>
   map wf_edges (notified (clickDelete (hd (nodes canvasABT)) canvasABT)) = [[edgeAB, edgeBB]] \<and>
   edges (syncWorkflow
            (Some (handleWorkflowChange
                     (last (notified (clickDelete (hd (nodes canvasABT)) canvasABT)))))
            (clickDelete (hd (nodes canvasABT)) canvasABT)) = [edgeAB, edgeBB]"
  by (simp add: canvasABT_def docABT_def canvasAB_def syncWorkflow_def sameNodeSet_def
      sameEdgeSet_def every_indexed_def handleWorkflowChange_def
      incomingNodes_def incomingEdges_def sanitizeNodes_def sanitizeNode_sel hydrate_sel
      clickDelete_def onNodesDelete_def rendered_def Let_def nodeA_def nodeB_def nodeT_def
      edgeAB_def edgeBB_def)

section \<open>Updating a node's configuration\<close>

text \<open>
  Claim C7. The update callback replaces every node by its \<^verbatim>\<open>mergeConfig\<close> image and
  leaves the edges alone. On a node with the given id the new config, read as a map, is
  the old one overwritten by the keys of the patch; any other node is returned as it is.
  Merging \<open>[(a, va)]\<close> and then \<open>[(b, vb)]\<close> yields the old config with \<open>a\<close> mapped
  to \<open>va\<close> and \<open>b\<close> to \<open>vb\<close>. When no node has the id, the nodes, the edges and the
  connect cursor are unchanged; the callback notifies the owner in either case.
\<close>

theorem updateConfig_merges:
  "nodes (run_onUpdateConfig h nodeId newConfig s) = map (mergeConfig nodeId newConfig) (nodes s) \<and>
   edges (run_onUpdateConfig h nodeId newConfig s) = edges s \<and>
   (node_id node = nodeId \<longrightarrow>
      map_of (config_or_empty (mergeConfig nodeId newConfig node)) =
        map_of (config_or_empty node) ++ map_of (rev newConfig)) \<and>
   (node_id node \<noteq> nodeId \<longrightarrow> mergeConfig nodeId newConfig node = node) \<and>
   (node_id node = nodeId \<longrightarrow>
      map_of (config_or_empty (mergeConfig nodeId [(b, vb)] (mergeConfig nodeId [(a, va)] node))) =
        (map_of (config_or_empty node))(a \<mapsto> va, b \<mapsto> vb)) \<and>
   nodes (run_onUpdateConfig h' nodeId [(b, vb)] (run_onUpdateConfig h nodeId [(a, va)] s)) =
     map (\<lambda>node. mergeConfig nodeId [(b, vb)] (mergeConfig nodeId [(a, va)] node)) (nodes s) \<and>
   (nodeId \<notin> node_id ` set (nodes s) \<longrightarrow>
      nodes (run_onUpdateConfig h nodeId newConfig s) = nodes s \<and>
      edges (run_onUpdateConfig h nodeId newConfig s) = edges s \<and>
      connectFromRef (run_onUpdateConfig h nodeId newConfig s) = connectFromRef s)"
proof -
  have absent: "nodeId \<notin> node_id ` set ns \<Longrightarrow> map (mergeConfig nodeId newConfig) ns = ns" for ns
    by (induction ns) (auto simp: mergeConfig_other)
  show ?thesis
    by (simp add: run_onUpdateConfig_sel config_mergeConfig map_of_spread mergeConfig_other
        absent)
qed

theorem updateConfig_merges_witness:
  "node_id nodeA = ''a'' \<and>
   map_of (config_or_empty nodeA) ''k'' = Some (JNum 1) \<and>
   map_of (config_or_empty (mergeConfig ''a'' [(''b'', JNum 2)] (mergeConfig ''a'' [(''a'', JNum 1)] nodeA))) ''a'' = Some (JNum 1) \<and>
   map_of (config_or_empty (mergeConfig ''a'' [(''b'', JNum 2)] (mergeConfig ''a'' [(''a'', JNum 1)] nodeA))) ''b'' = Some (JNum 2) \<and>
   map_of (config_or_empty (mergeConfig ''a'' [(''b'', JNum 2)] (mergeConfig ''a'' [(''a'', JNum 1)] nodeA))) ''k'' = Some (JNum 1) \<and>
   map_of (config_or_empty (mergeConfig ''a'' [(''k'', JNum 7)] nodeA)) ''k'' = Some (JNum 7) \<and>
   mergeConfig ''a'' [(''k'', JNum 7)] nodeB = nodeB \<and>
   ''zz'' \<notin> node_id ` set (nodes canvasAB) \<and>
   nodes (run_onUpdateConfig (HydratedUpdate []) ''zz'' [(''k'', JNum 7)] canvasAB) = nodes canvasAB"
  using updateConfig_merges [of "HydratedUpdate []" "''zz''" "[(''k'', JNum 7)]" canvasAB nodeA
      "''b''" "JNum 2" "''a''" "JNum 1" "HydratedUpdate []"]
  by (simp add: canvasAB_def nodeA_def nodeB_def config_or_empty_def node_config_def
      mergeConfig_def spread_def data_or_empty_def Let_def)

section \<open>Connect mode\<close>

text \<open>
  Claim C8, as amended. Let the cursor be idle (\<^verbatim>\<open>null\<close> or empty) and let \<open>a\<close> be
  a node whose id is not the empty string. In connect mode a click on \<open>a\<close> arms the
  cursor with the id of \<open>a\<close>, adds no edge and notifies nobody. A following click on a
  node \<open>b\<close> with another id notifies the owner of exactly one new edge from \<open>a\<close> to
  \<open>b\<close> and makes the cursor idle; the edge is appended to the edges of the state when
  the id of \<open>b\<close> is not empty and no edge of the state connects \<open>a\<close> to \<open>b\<close> yet. A
  following click on \<open>a\<close> itself adds no edge and notifies nobody. A following click on
  the pane adds no edge and notifies nobody, whichever value of \<^verbatim>\<open>connectMode\<close> the
  pane callback closes over. What the pane click does to the cursor is left out of the
  statement.
\<close>

theorem connect_mode_machine:
  assumes "falsy (connectFromRef s)" and "node_id a \<noteq> []"
  shows
   "connectFromRef (onNodeClick cl1 True t1 a s) = Some (node_id a) \<and>
    edges (onNodeClick cl1 True t1 a s) = edges s \<and>
    notified (onNodeClick cl1 True t1 a s) = notified s \<and>
    (node_id a \<noteq> node_id b \<longrightarrow>
       notified (onNodeClick cl2 True t2 b (onNodeClick cl1 True t1 a s)) =
         notified s @ [\<lparr>wf_nodes = c_nodes cl2,
                        wf_edges = c_edges cl2 @
                          [\<lparr>edge_id = node_id a @ ''-'' @ node_id b @ ''-'' @ decimal t2,
                            source = node_id a, target = node_id b\<rparr>]\<rparr>] \<and>
       connectFromRef (onNodeClick cl2 True t2 b (onNodeClick cl1 True t1 a s)) = None) \<and>
    (node_id a \<noteq> node_id b \<and> node_id b \<noteq> [] \<and>
     \<not> list_ex (\<lambda>e. source e = node_id a \<and> target e = node_id b) (edges s) \<longrightarrow>
       edges (onNodeClick cl2 True t2 b (onNodeClick cl1 True t1 a s)) =
         edges s @ [\<lparr>edge_id = node_id a @ ''-'' @ node_id b @ ''-'' @ decimal t2,
                     source = node_id a, target = node_id b\<rparr>]) \<and>
    edges (onNodeClick cl2 True t2 a (onNodeClick cl1 True t1 a s)) = edges s \<and>
    notified (onNodeClick cl2 True t2 a (onNodeClick cl1 True t1 a s)) = notified s \<and>
    edges (onPaneClick cm (onNodeClick cl1 True t1 a s)) = edges s \<and>
    notified (onPaneClick cm (onNodeClick cl1 True t1 a s)) = notified s"
proof -
  have armed: "onNodeClick cl1 True t1 a s = s\<lparr>connectFromRef := Some (node_id a)\<rparr>"
    using assms(1) by (auto simp: onNodeClick_def falsy_def split: option.splits)
  show ?thesis
    unfolding armed using assms(2)
    by (simp add: onNodeClick_def onPaneClick_def addEdge_def connectionExists_def Let_def)
qed

theorem connect_mode_machine_witness:
  "falsy (connectFromRef canvasAB) \<and> node_id nodeB \<noteq> [] \<and> node_id nodeA \<noteq> [] \<and>
   node_id nodeB \<noteq> node_id nodeA \<and>
   \<not> list_ex (\<lambda>e. source e = node_id nodeB \<and> target e = node_id nodeA) (edges canvasAB) \<and>
   edges (onNodeClick (rendered canvasAB) True 2 nodeA
            (onNodeClick (rendered canvasAB) True 1 nodeB canvasAB)) =
     [edgeAB, edgeBB, \<lparr>edge_id = ''b-a-'' @ decimal 2, source = ''b'', target = ''a''\<rparr>] \<and>
   connectFromRef (onNodeClick (rendered canvasAB) True 2 nodeA
            (onNodeClick (rendered canvasAB) True 1 nodeB canvasAB)) = None \<and>
   edges (onNodeClick (rendered canvasAB) True 2 nodeB
            (onNodeClick (rendered canvasAB) True 1 nodeB canvasAB)) = [edgeAB, edgeBB] \<and>
   edges (onPaneClick True (onNodeClick (rendered canvasAB) True 1 nodeB canvasAB)) =
     [edgeAB, edgeBB]"
  using connect_mode_machine [of canvasAB nodeB "rendered canvasAB" 1 nodeA "rendered canvasAB" 2 True]
  by (simp add: canvasAB_def nodeA_def nodeB_def edgeAB_def edgeBB_def falsy_def)

text \<open>
  The claim as stated fails in three ways on \<open>canvasAB\<close>. After a click on a node whose
  id is the empty string the cursor is still falsy, so the click on the second node arms
  the cursor instead of creating an edge. When the edge from \<open>a\<close> to \<open>b\<close> exists
  already, clicking \<open>a\<close> and then \<open>b\<close> leaves the edges of the state as they are,
  while the owner is notified of three edges. When the second node has the empty id, the
  edges of the state are left as they are, too.
\<close>

theorem connect_mode_counterexample:
  "connectFromRef canvasAB = None \<and> node_id nodeE \<noteq> node_id nodeB \<and>
   edges (onNodeClick (rendered canvasAB) True 2 nodeB
            (onNodeClick (rendered canvasAB) True 1 nodeE canvasAB)) = edges canvasAB \<and>
   connectFromRef (onNodeClick (rendered canvasAB) True 2 nodeB
            (onNodeClick (rendered canvasAB) True 1 nodeE canvasAB)) = Some ''b'' \<and>
   node_id nodeA \<noteq> node_id nodeB \<and>
   edges (onNodeClick (rendered canvasAB) True 2 nodeB
            (onNodeClick (rendered canvasAB) True 1 nodeA canvasAB)) = edges canvasAB \<and>
   map (\<lambda>w. length (wf_edges w))
       (notified (onNodeClick (rendered canvasAB) True 2 nodeB
                    (onNodeClick (rendered canvasAB) True 1 nodeA canvasAB))) = [3] \<and>
   node_id nodeA \<noteq> node_id nodeE \<and>
   edges (onNodeClick (rendered canvasAB) True 2 nodeE
            (onNodeClick (rendered canvasAB) True 1 nodeA canvasAB)) = edges canvasAB"
  by (simp add: canvasAB_def nodeA_def nodeB_def nodeE_def edgeAB_def edgeBB_def
      onNodeClick_def addEdge_def connectionExists_def rendered_def Let_def)

text \<open>
  The pane callback is memoised on \<^verbatim>\<open>[onNodeSelect]\<close> alone (line 190), while
  \<^verbatim>\<open>onNodeClick\<close> lists \<^verbatim>\<open>connectMode\<close> among its dependencies (line 182). A
  canvas mounted with connect mode off and switched to connect mode later, with the same
  \<^verbatim>\<open>onNodeSelect\<close>, therefore clicks nodes with \<^verbatim>\<open>connectMode\<close> on and the pane with
  \<^verbatim>\<open>connectMode\<close> off. On \<open>canvasAB\<close>: after a click on \<open>b\<close>, the pane click
  deselects instead of clearing the cursor, and the next click on \<open>a\<close> creates the edge
  from \<open>b\<close> to \<open>a\<close>.
\<close>

lemma onPaneClick_stale_connectMode:
  "connectFromRef
     (onPaneClick False (onNodeClick (rendered canvasAB) True 1 nodeB canvasAB)) = Some ''b'' \<and>
   selections
     (onPaneClick False (onNodeClick (rendered canvasAB) True 1 nodeB canvasAB)) = [None] \<and>
   edges (onNodeClick (rendered canvasAB) True 2 nodeA
            (onPaneClick False (onNodeClick (rendered canvasAB) True 1 nodeB canvasAB))) =
     [edgeAB, edgeBB, \<lparr>edge_id = ''b-a-'' @ decimal 2, source = ''b'', target = ''a''\<rparr>]"
  by (simp add: canvasAB_def nodeA_def nodeB_def edgeAB_def edgeBB_def onNodeClick_def
      onPaneClick_def addEdge_def connectionExists_def rendered_def Let_def)

text \<open>
  Claim C3 does not hold of the code. The connect-mode click that creates an edge
  notifies the owner with the \<^verbatim>\<open>nodes\<close> of its closure as they are (line 176), and the
  delete callback of a dropped node with the filtered \<^verbatim>\<open>nodes\<close> of its closure as they
  are (lines 140-142); neither calls \<^verbatim>\<open>sanitizeNodes\<close>. On \<open>canvasAB\<close> the first
  notifies node \<open>a\<close> with its two callbacks; so does the second, for a node dropped on
  \<open>canvasAB\<close> and then deleted.
\<close>

theorem notified_nodes_carry_handles:
  "carries_handle nodeA \<and>
   map wf_nodes (notified (onNodeClick (rendered canvasAB) True 2 nodeB
                   (onNodeClick (rendered canvasAB) True 1 nodeA canvasAB))) =
     [[nodeA, nodeB]] \<and>
   map node_id (nodes droppedOnAB) = [''a'', ''b'', ''output_5''] \<and>
   wf_nodes (last (notified (clickDelete (last (nodes droppedOnAB)) droppedOnAB))) =
     [nodeA, nodeB]"
  by (simp add: droppedOnAB_def onDrop_def addDropped_def evOut_def canvasAB_def rendered_def newNode_def
      clickDelete_def node_onDelete_def onNodeClick_def Let_def decimal_5 nodeA_def nodeB_def
      carries_handle_def)

section \<open>Drop-create\<close>

text \<open>
  Claim C9 does not hold of the code. A drop whose \<^verbatim>\<open>componentData\<close> cannot be parsed
  leaves \<^verbatim>\<open>onDrop\<close> by the \<^verbatim>\<open>SyntaxError\<close> of \<^verbatim>\<open>JSON.parse\<close>, which line 116 calls
  before the guard of lines 118-120; a drop whose \<^verbatim>\<open>componentData\<close> is \<^verbatim>\<open>null\<close>
  leaves it by a \<^verbatim>\<open>TypeError\<close>. Only a drop that parses and lacks the drag type is
  dropped silently, the state unchanged.
\<close>

theorem onDrop_malformed_throws:
  "onDrop (rendered canvasAB) evForeign canvasAB = Inl SyntaxError \<and>
   onDrop (rendered canvasAB) evNull canvasAB = Inl TypeError \<and>
   onDrop (rendered canvasAB) (evOut\<lparr>reactflow_type := []\<rparr>) canvasAB = Inr canvasAB"
  by (simp add: onDrop_def addDropped_def evForeign_def evNull_def evOut_def)

text \<open>
  Claim C10, as amended. A drop that parses and carries the drag type appends its node
  to the nodes of the state, also when a node of the state already has the new node's id,
  \<^verbatim>\<open>componentType_timestamp\<close>; the ids of the state are then no longer distinct. No
  error is raised.
\<close>

theorem onDrop_duplicate_appends:
  assumes "parsed_componentData event = Inr (JsonObject p)"
    and "reactflow_type event \<noteq> []"
    and "node_id (newNode cl event p) \<in> node_id ` set (nodes s)"
  shows
   "onDrop cl event s =
      Inr (s\<lparr>nodes := nodes s @ [newNode cl event p],
             notified := notified s @
               [\<lparr>wf_nodes = sanitizeNodes (c_nodes cl @ [newNode cl event p]),
                 wf_edges = c_edges cl\<rparr>]\<rparr>) \<and>
    node_id (newNode cl event p) = componentType event @ ''_'' @ decimal (drop_now event) \<and>
    \<not> distinct (map node_id (nodes s @ [newNode cl event p]))"
  using assms by (simp add: onDrop_def addDropped_def Let_def newNode_def)

theorem onDrop_duplicate_appends_witness:
  "map node_id (nodes droppedOnce) = [''output_5''] \<and>
   map node_id (nodes droppedTwice) = [''output_5'', ''output_5'']"
proof -
  have 1: "parsed_componentData evOut = Inr (JsonObject payloadOut)"
    by (simp add: evOut_def)
  have 2: "reactflow_type evOut \<noteq> []"
    by (simp add: evOut_def)
  have 3: "node_id (newNode (rendered droppedOnce) evOut payloadOut) \<in> node_id ` set (nodes droppedOnce)"
    by (simp add: droppedOnce_nodes newNode_def)
  have 4: "node_id (newNode cl evOut payloadOut) = ''output_5''" for cl
    by (simp add: newNode_def evOut_def decimal_5)
  from onDrop_duplicate_appends [OF 1 2 3] show ?thesis
    by (simp add: droppedTwice_def droppedOnce_nodes 4)
qed

text \<open>
  The claim as stated fails when the same drop fires twice within one millisecond: the
  second create is not ignored, and the state holds two nodes with the id
  \<^verbatim>\<open>output_5\<close>.
\<close>

theorem onDrop_duplicate_counterexample:
  "onDrop (rendered emptyCanvas) evOut emptyCanvas = Inr droppedOnce \<and>
   onDrop (rendered droppedOnce) evOut droppedOnce = Inr droppedTwice \<and>
   map node_id (nodes droppedOnce) = [''output_5''] \<and>
   map node_id (nodes droppedTwice) = [''output_5'', ''output_5''] \<and>
   nodes droppedTwice \<noteq> nodes droppedOnce"
  by (simp add: droppedTwice_def droppedOnce_def onDrop_def addDropped_def evOut_def emptyCanvas_def Let_def
      newNode_def decimal_5 rendered_def)

end
